theory Spec2Isabelle
  imports Main "HOL-Library.Word"
begin

unbundle bit_operations_syntax

section \<open>Values, pointers and runs\<close>

text \<open>
  The development embeds the object file module of sky (file management, the loader
  of the action dictionary, locking, lifecycle, open and close, event insertion) and the
  option parser of \<^verbatim>\<open>sky_bench.c\<close>.

  A C pointer is \<open>NULL\<close>, a pointer to a value, or \<open>Indeterminate\<close>: the content of
  a pointer variable that was declared without an initialiser and never assigned, or
  whose bytes were overwritten by a read aimed at the variable itself. An indeterminate
  pointer may be copied. For a run that tests it, frees it or reads through it, or
  whose course depends on an integer that was never written, C fixes no result: that
  is the outcome \<open>Undefined\<close> of a run. Every other run returns a value. Memory
  allocation is taken to succeed, so the \<^verbatim>\<open>check_mem\<close> exits are not branches of the
  model. A \<^verbatim>\<open>bstring\<close> is modelled by its text, which holds no NUL byte, so \<^verbatim>\<open>bdata\<close>
  and the \<^verbatim>\<open>%s\<close> conversion are the identity on it.
\<close>

type_synonym byte = "8 word"

datatype 'a pointer = NULL | Indeterminate | Ptr 'a

datatype 'a run = Undefined | Return 'a

definition then_run :: "'a run \<Rightarrow> ('a \<Rightarrow> 'b run) \<Rightarrow> 'b run" where
  "then_run r k = (case r of Undefined \<Rightarrow> Undefined | Return x \<Rightarrow> k x)"

text \<open>\<^verbatim>\<open>free\<close> and the test \<^verbatim>\<open>if(p)\<close> that guards it need a determinate pointer.\<close>

definition free :: "'a pointer \<Rightarrow> unit run" where
  "free p = (case p of Indeterminate \<Rightarrow> Undefined | _ \<Rightarrow> Return ())"

section \<open>The file system\<close>

text \<open>
  The file system maps the path of each regular file to its bytes. \<^verbatim>\<open>stat\<close> returns
  0 for a path that names a file and -1 otherwise; \<^verbatim>\<open>fopen\<close> in mode \<^verbatim>\<open>"r"\<close> returns
  a stream for a path that names a file and \<open>NULL\<close> otherwise. A stream is the bytes
  not yet read and the end-of-file indicator, which a read sets when it asks for more
  bytes than are left.
\<close>

type_synonym filesystem = "string \<rightharpoonup> byte list"

record FILE =
  unread :: "byte list"
  eof :: bool

definition stat :: "filesystem \<Rightarrow> string \<Rightarrow> int" where
  "stat fs path = (case fs path of None \<Rightarrow> - 1 | Some bytes \<Rightarrow> 0)"

definition fopen :: "filesystem \<Rightarrow> string \<Rightarrow> FILE pointer" where
  "fopen fs path =
     (case fs path of None \<Rightarrow> NULL | Some bytes \<Rightarrow> Ptr \<lparr>unread = bytes, eof = False\<rparr>)"

text \<open>
  \<^verbatim>\<open>fread(ptr, sz, nmemb, file)\<close>: the bytes delivered, the number of complete items
  among them (the return value), and the stream afterwards.
\<close>

definition fread :: "nat \<Rightarrow> nat \<Rightarrow> FILE \<Rightarrow> byte list \<times> nat \<times> FILE" where
  "fread sz nmemb file =
     (let want = sz * nmemb; got = take want (unread file)
      in (got, length got div sz,
          file\<lparr>unread := drop want (unread file), eof := eof file \<or> length got < want\<rparr>))"

text \<open>
  The bytes of an integer object as the target stores them, least significant first.
  A read that fills the object gives it that value; a read that delivers nothing leaves
  it as it was; a read that delivers part of it leaves it indeterminate (\<open>None\<close>).
\<close>

fun le_word :: "byte list \<Rightarrow> 'a::len word" where
  "le_word [] = 0"
| "le_word (b # bs) = ucast b OR push_bit 8 (le_word bs)"

definition store :: "nat \<Rightarrow> byte list \<Rightarrow> 'a::len word option \<Rightarrow> 'a word option" where
  "store sz got old =
     (if length got = sz then Some (le_word got) else if got = [] then old else None)"

section \<open>The object file\<close>

text \<open>
  The headers \<^verbatim>\<open>database.h\<close> and \<^verbatim>\<open>object_file.h\<close> are not among the sources. The
  fields are those the functions assign; the counts take the type of the local
  \<^verbatim>\<open>count\<close> that \<^verbatim>\<open>load_actions\<close> copies into \<^verbatim>\<open>action_count\<close>, and the id of an
  action takes the 4 bytes the on-disk form gives it. An id that was not fully read is
  \<open>None\<close>. The element types of the header infos and of the property list are never
  inspected.
\<close>

record Database =
  path :: string

typedecl BlockInfo

typedecl Property

record Action =
  id' :: "32 word option"
  name :: "string pointer"

record ObjectFile =
  name :: string
  path :: string
  infos :: "BlockInfo list pointer"
  block_count :: "32 word"
  actions :: "Action list pointer"
  action_count :: "32 word"
  properties :: "Property list pointer"
  property_count :: "32 word"

text \<open>The state a call works on: the file system and the handle it is given.\<close>

type_synonym world = "filesystem \<times> ObjectFile"

subsection \<open>File management\<close>

definition file_exists :: "filesystem \<Rightarrow> string \<Rightarrow> int" where
  "file_exists fs path' = (let rc = stat fs path' in rc)"

subsection \<open>Header management\<close>

definition load_header :: "world \<Rightarrow> (int \<times> world) run" where
  "load_header w = Return (0, w)"

subsection \<open>Action management\<close>

text \<open>
  \<^verbatim>\<open>bfromcstr\<close> copies the bytes before the first NUL of the buffer it is given.
\<close>

definition bfromcstr :: "byte list pointer \<Rightarrow> string pointer run" where
  "bfromcstr buffer =
     (case buffer of
        NULL \<Rightarrow> Return NULL
      | Indeterminate \<Rightarrow> Undefined
      | Ptr bytes \<Rightarrow> Return (Ptr (map (\<lambda>b. char_of (unat b)) (takeWhile (\<lambda>b. b \<noteq> 0) bytes))))"

text \<open>
  The label \<^verbatim>\<open>error\<close> of \<^verbatim>\<open>load_actions\<close>: close the stream if there is one, free
  the buffer if there is one, return -1.
\<close>

definition load_actions_error :: "FILE pointer \<Rightarrow> byte list pointer \<Rightarrow> int run" where
  "load_actions_error file buffer = then_run (free buffer) (\<lambda>u. Return (- 1))"

text \<open>
  The array of \<^verbatim>\<open>count\<close> actions as \<^verbatim>\<open>malloc\<close> returns it: no element written.
\<close>

definition unwritten :: Action where
  "unwritten = \<lparr>id' = None, name = Indeterminate\<rparr>"

text \<open>
  The loop of \<^verbatim>\<open>load_actions\<close>, from the state before the test of iteration \<open>i\<close>.
  \<open>length'\<close> is the local \<^verbatim>\<open>length\<close>, declared without an initialiser. The third
  read asks for one item of \<^verbatim>\<open>sizeof(length)\<close> = 2 bytes and is aimed at the pointer
  variable \<^verbatim>\<open>buffer\<close> itself, so any byte it delivers overwrites the pointer; its
  return value, 0 or 1 items, is compared with \<^verbatim>\<open>length\<close>. The result is \<open>None\<close>
  when the run leaves through the label \<^verbatim>\<open>error\<close>, and the array otherwise.
\<close>

function read_actions ::
  "32 word \<Rightarrow> 32 word \<Rightarrow> FILE \<Rightarrow> 16 word option \<Rightarrow> Action list \<Rightarrow> Action list option run"
where
  "read_actions i count file length' actions' =
     (if i < count \<and> \<not> eof file then
        (case fread 4 1 file of (id_bytes, n1, file1) \<Rightarrow>
         case fread 2 1 file1 of (length_bytes, n2, file2) \<Rightarrow>
         case store 2 length_bytes length' of
           None \<Rightarrow> Undefined
         | Some len \<Rightarrow>
            (case fread 2 1 file2 of (name_bytes, n3, file3) \<Rightarrow>
               let buffer = (if name_bytes = [] then Ptr (replicate (unat len + 1) 0)
                             else Indeterminate)
               in if n3 = unat len then
                    then_run (bfromcstr buffer) (\<lambda>s.
                      read_actions (i + 1) count file3 (Some len)
                        (list_update actions' (unat i) \<lparr>id' = store 4 id_bytes None, Action.name = s\<rparr>))
                  else
                    then_run (load_actions_error (Ptr file3) buffer) (\<lambda>rc. Return None)))
      else Return (Some actions'))"
  by pat_completeness auto

termination read_actions
proof (relation "measure (\<lambda>(i, count, stream, length', actions'). unat count - unat i)")
  show "wf (measure (\<lambda>(i, count, stream, length', actions'). unat count - unat i))"
    by simp
next
  fix i count :: "32 word" and stream stream3 :: FILE and length' :: "16 word option"
    and actions' :: "Action list" and id_bytes :: "byte list" and len :: "16 word"
    and s :: "string pointer"
  assume "i < count \<and> \<not> eof stream"
  then have lt: "unat i < unat count"
    by (simp add: word_less_nat_alt)
  have "unat count < 2 ^ 32"
    using unsigned_less [of count] by simp
  with lt have "unat i + unat (1 :: 32 word) < 2 ^ LENGTH(32)"
    by simp
  then have "unat (i + 1) = unat i + unat (1 :: 32 word)"
    by (simp only: unat_add_lem [THEN iffD1])
  with lt show "((i + 1, count, stream3, Some len,
        list_update actions' (unat i) \<lparr>id' = store 4 id_bytes None, Action.name = s\<rparr>),
       i, count, stream, length', actions')
      \<in> measure (\<lambda>(i, count, stream, length', actions'). unat count - unat i)"
    by simp
qed

declare read_actions.simps [simp del]

text \<open>
  \<^verbatim>\<open>load_actions\<close>. The branch guarded by \<^verbatim>\<open>if(file_exists(path))\<close> is taken when
  \<^verbatim>\<open>file_exists\<close> returns a value other than 0. Where \<^verbatim>\<open>fopen\<close> fails, the run jumps
  to \<^verbatim>\<open>error\<close> before \<^verbatim>\<open>buffer\<close> has been assigned. Where the branch is not
  taken, the local \<^verbatim>\<open>actions\<close>, never assigned, is copied into the handle with the
  count 0.
\<close>

definition load_actions :: "world \<Rightarrow> (int \<times> world) run" where
  "load_actions w =
     (case w of (fs, object_file) \<Rightarrow>
        let path' = ObjectFile.path object_file @ ''/actions'' in
        if file_exists fs path' \<noteq> 0 then
          (case fopen fs path' of
             NULL \<Rightarrow> then_run (load_actions_error NULL Indeterminate) (\<lambda>rc. Return (rc, w))
           | Indeterminate \<Rightarrow> Undefined
           | Ptr file \<Rightarrow>
              (case fread 4 1 file of (count_bytes, n, file1) \<Rightarrow>
               case store 4 count_bytes (Some 0) of
                 None \<Rightarrow> Undefined
               | Some count \<Rightarrow>
                  then_run
                    (read_actions 0 count file1 None (replicate (unat count) unwritten))
                    (\<lambda>r. case r of
                       None \<Rightarrow> Return (- 1, w)
                     | Some actions' \<Rightarrow>
                        Return (0, fs,
                          object_file\<lparr>actions := Ptr actions', action_count := count\<rparr>))))
        else Return (0, fs, object_file\<lparr>actions := Indeterminate, action_count := 0\<rparr>))"

subsection \<open>Property management\<close>

definition load_properties :: "world \<Rightarrow> (int \<times> world) run" where
  "load_properties w = Return (0, w)"

subsection \<open>Locking\<close>

definition lock :: "world \<Rightarrow> (int \<times> world) run" where
  "lock w = Return (0, w)"

definition unlock :: "world \<Rightarrow> (int \<times> world) run" where
  "unlock w = Return (0, w)"

subsection \<open>Lifecycle\<close>

definition ObjectFile_destroy :: "ObjectFile pointer \<Rightarrow> unit run" where
  "ObjectFile_destroy object_file =
     (case object_file of
        NULL \<Rightarrow> Return ()
      | Indeterminate \<Rightarrow> Undefined
      | Ptr h \<Rightarrow> Return ())"

text \<open>
  \<^verbatim>\<open>ObjectFile_create\<close>. The local \<^verbatim>\<open>object_file\<close> is declared without an
  initialiser and assigned by \<^verbatim>\<open>malloc\<close> after the two checks; a check that fails
  jumps to \<^verbatim>\<open>error\<close>, which hands the local to \<^verbatim>\<open>ObjectFile_destroy\<close> and then
  returns \<open>NULL\<close>.
\<close>

definition ObjectFile_create_error :: "ObjectFile pointer \<Rightarrow> ObjectFile pointer run" where
  "ObjectFile_create_error object_file =
     then_run (ObjectFile_destroy object_file) (\<lambda>u. Return NULL)"

definition ObjectFile_create :: "Database pointer \<Rightarrow> string pointer \<Rightarrow> ObjectFile pointer run"
where
  "ObjectFile_create database name' =
     (case database of
        NULL \<Rightarrow> ObjectFile_create_error Indeterminate
      | Indeterminate \<Rightarrow> Undefined
      | Ptr db \<Rightarrow>
         (case name' of
            NULL \<Rightarrow> ObjectFile_create_error Indeterminate
          | Indeterminate \<Rightarrow> Undefined
          | Ptr n \<Rightarrow>
             Return (Ptr \<lparr>ObjectFile.name = n,
                          path = Database.path db @ ''/'' @ n,
                          infos = NULL, block_count = 0,
                          actions = NULL, action_count = 0,
                          properties = NULL, property_count = 0\<rparr>)))"

subsection \<open>State\<close>

text \<open>
  \<^verbatim>\<open>check(f(object_file) == 0, ...)\<close>: go on when the call returned 0, otherwise
  leave through \<^verbatim>\<open>error\<close>, which returns -1.
\<close>

definition check_zero ::
  "(int \<times> world) run \<Rightarrow> (world \<Rightarrow> (int \<times> world) run) \<Rightarrow> (int \<times> world) run" where
  "check_zero r k =
     (case r of
        Undefined \<Rightarrow> Undefined
      | Return (rc, w) \<Rightarrow> if rc = 0 then k w else Return (- 1, w))"

definition ObjectFile_open :: "world \<Rightarrow> (int \<times> world) run" where
  "ObjectFile_open w =
     check_zero (lock w) (\<lambda>w1.
     check_zero (load_header w1) (\<lambda>w2.
     check_zero (load_actions w2) (\<lambda>w3.
     check_zero (load_properties w3) (\<lambda>w4.
     Return (0, w4)))))"

definition ObjectFile_close :: "world \<Rightarrow> (int \<times> world) run" where
  "ObjectFile_close w = check_zero (unlock w) (\<lambda>w1. Return (0, w1))"

subsection \<open>Event management\<close>

text \<open>
  Modelled from the spec: \<^verbatim>\<open>event.h\<close> is not among the sources. An event carries the
  object id it is for, a timestamp and an action id; \<^verbatim>\<open>ObjectFile_add_event\<close> reads
  none of them.
\<close>

record Event =
  object_id :: "64 word"
  timestamp :: "64 word"
  action_id :: "32 word"

definition ObjectFile_add_event :: "world \<Rightarrow> Event \<Rightarrow> (int \<times> world) run" where
  "ObjectFile_add_event w event = Return (0, w)"

text \<open>
  A caller that inserts a sequence of events one after the other, keeping the return
  codes.
\<close>

fun add_events :: "world \<Rightarrow> Event list \<Rightarrow> (int list \<times> world) run" where
  "add_events w [] = Return ([], w)"
| "add_events w (event # events) =
     then_run (ObjectFile_add_event w event) (\<lambda>(rc, w1).
     then_run (add_events w1 events) (\<lambda>(rcs, w2). Return (rc # rcs, w2)))"

section \<open>The action dictionary on disk\<close>

text \<open>
  Modelled from the spec: the sources hold a loader for the action dictionary and
  neither \<^verbatim>\<open>find_or_create\<close> nor \<^verbatim>\<open>persist\<close>. A dictionary is its entries in the
  order they were appended and a dirty mark. \<open>find_or_create\<close> returns the id of a name
  that is present; otherwise it allocates the largest id plus one, or 0 in an empty
  dictionary, appends the entry and marks the dictionary dirty. \<open>persist\<close> writes a
  4-byte count, then for each entry a 4-byte id, a 2-byte name length and the bytes of
  the name without a terminator. The integers are written as the loader reads them,
  in the byte order of the target.
\<close>

record dictionary =
  entries :: "(32 word \<times> string) list"
  dirty :: bool

definition find_or_create :: "string \<Rightarrow> dictionary \<Rightarrow> 32 word \<times> dictionary" where
  "find_or_create n d =
     (case map_of (map (\<lambda>(i, m). (m, i)) (entries d)) n of
        Some i \<Rightarrow> (i, d)
      | None \<Rightarrow>
         (let i = (if entries d = [] then 0 else foldr max (map fst (entries d)) 0 + 1)
          in (i, d\<lparr>entries := entries d @ [(i, n)], dirty := True\<rparr>)))"

definition le_bytes :: "nat \<Rightarrow> 'a::len word \<Rightarrow> byte list" where
  "le_bytes n w = map (\<lambda>k. ucast (drop_bit (8 * k) w)) [0..<n]"

definition persist :: "dictionary \<Rightarrow> byte list" where
  "persist d =
     le_bytes 4 (word_of_nat (length (entries d)) :: 32 word) @
     concat (map (\<lambda>(i, n). le_bytes 4 i @ le_bytes 2 (word_of_nat (length n) :: 16 word) @
                             map of_char n) (entries d))"

section \<open>The option parser of the benchmark\<close>

text \<open>
  \<^verbatim>\<open>atoi\<close> of the C library, that is \<^verbatim>\<open>(int) strtol(s, NULL, 10)\<close> where \<^verbatim>\<open>long\<close> has
  64 bits: white space is skipped, a sign is read, then decimal digits; the value is
  kept within the range of \<^verbatim>\<open>long\<close> and cut to the 32 bits of \<^verbatim>\<open>int\<close>.
\<close>

definition isspace :: "char \<Rightarrow> bool" where
  "isspace c =
     (c = CHR '' '' \<or> c = CHR 0x09 \<or> c = CHR 0x0A \<or> c = CHR 0x0B \<or> c = CHR 0x0C \<or>
      c = CHR 0x0D)"

definition isdigit :: "char \<Rightarrow> bool" where
  "isdigit c = (48 \<le> (of_char c :: nat) \<and> (of_char c :: nat) \<le> 57)"

fun digits :: "int \<Rightarrow> string \<Rightarrow> int" where
  "digits acc [] = acc"
| "digits acc (c # cs) = (if isdigit c then digits (10 * acc + (of_char c - 48)) cs else acc)"

definition strtol :: "string \<Rightarrow> int" where
  "strtol s =
     (let t = dropWhile isspace s;
          v = (case t of
                 [] \<Rightarrow> 0
               | c # cs \<Rightarrow>
                  if c = CHR ''-'' then - digits 0 cs
                  else if c = CHR ''+'' then digits 0 cs
                  else digits 0 t)
      in max (- (2 ^ 63)) (min (2 ^ 63 - 1) v))"

definition atoi :: "string \<Rightarrow> 32 word" where
  "atoi s = word_of_int (strtol s)"

record Options =
  path :: "string pointer"
  object_type :: "string pointer"
  iterations :: "32 word"

text \<open>A call that may end the process: the exit status with the text written to
  \<^verbatim>\<open>stderr\<close>, or the value returned.\<close>

datatype 'a process = Exit int string | Returned 'a

text \<open>
  The loop of \<^verbatim>\<open>parseopts\<close> over the calls of \<^verbatim>\<open>getopt_long\<close>, which belongs to the
  C library: each call before the one that returns -1 gives an option character
  \<open>c\<close> and, for an option that takes an argument, \<^verbatim>\<open>optarg\<close>. The \<^verbatim>\<open>switch\<close> has
  the cases \<^verbatim>\<open>'o'\<close> and \<^verbatim>\<open>'i'\<close> and no default.
\<close>

fun parseopts_loop :: "(char \<times> string) list \<Rightarrow> Options \<Rightarrow> Options" where
  "parseopts_loop [] options = options"
| "parseopts_loop ((c, optarg) # calls) options =
     parseopts_loop calls
       (if c = CHR ''o'' then options\<lparr>object_type := Ptr optarg\<rparr>
        else if c = CHR ''i'' then options\<lparr>iterations := atoi optarg\<rparr>
        else options)"

text \<open>
  \<^verbatim>\<open>parseopts\<close>, given what \<^verbatim>\<open>getopt_long\<close> returned call by call and the arguments
  it left from \<^verbatim>\<open>optind\<close> on. The structure starts zeroed by \<^verbatim>\<open>calloc\<close>.
\<close>

definition parseopts :: "(char \<times> string) list \<Rightarrow> string list \<Rightarrow> Options process" where
  "parseopts calls args =
     (let options = parseopts_loop calls
            \<lparr>Options.path = NULL, object_type = NULL, iterations = 0\<rparr>
      in case args of
           [] \<Rightarrow> Exit 1 (''Error: Database path required.'' @ [CHR 0x0A, CHR 0x0A])
         | a # rest \<Rightarrow>
            (let options = options\<lparr>Options.path := Ptr a\<rparr>
             in if object_type options = NULL
                then Exit 1 (''Error: Object type (-o) is required.'' @ [CHR 0x0A, CHR 0x0A])
                else if sint (iterations options) \<le> 0
                     then Returned (options\<lparr>iterations := 1\<rparr>)
                     else Returned options))"

text \<open>
  What the command line gave for an option: the argument of its last occurrence, if it
  occurs.
\<close>

fun given :: "char \<Rightarrow> (char \<times> string) list \<Rightarrow> string option" where
  "given c [] = None"
| "given c ((c', optarg) # calls) =
     (case given c calls of
        Some a \<Rightarrow> Some a
      | None \<Rightarrow> if c' = c then Some optarg else None)"

section \<open>Fixtures\<close>

text \<open>
  The handle of the object type \<open>users\<close> in the database \<open>/db\<close>, as
  \<^verbatim>\<open>ObjectFile_create\<close> returns it, and three events of one object whose timestamps
  are 5, 1 and 3.
\<close>

definition users_file :: ObjectFile where
  "users_file =
     \<lparr>ObjectFile.name = ''users'', path = ''/db/users'',
      infos = NULL, block_count = 0,
      actions = NULL, action_count = 0,
      properties = NULL, property_count = 0\<rparr>"

definition event_at :: "64 word \<Rightarrow> Event" where
  "event_at t = \<lparr>object_id = 1, timestamp = t, action_id = 1\<rparr>"

section \<open>What the functions compute\<close>

lemma then_run_Return: "then_run (Return x) k = k x"
  by (simp add: then_run_def)

lemma then_run_Undefined: "then_run Undefined k = Undefined"
  by (simp add: then_run_def)

lemma ObjectFile_create_success:
  "ObjectFile_create (Ptr db) (Ptr n) =
     Return (Ptr \<lparr>ObjectFile.name = n, path = Database.path db @ ''/'' @ n,
                  infos = NULL, block_count = 0,
                  actions = NULL, action_count = 0,
                  properties = NULL, property_count = 0\<rparr>)"
  by (simp add: ObjectFile_create_def)

lemma users_file_created:
  "ObjectFile_create (Ptr \<lparr>Database.path = ''/db''\<rparr>) (Ptr ''users'') = Return (Ptr users_file)"
  by (simp add: ObjectFile_create_success users_file_def)

text \<open>
  In this file system \<^verbatim>\<open>fopen\<close> fails exactly where \<^verbatim>\<open>stat\<close> does, so the reading
  branch of \<^verbatim>\<open>load_actions\<close> is entered only to fail: without the file the run ends
  at the label \<^verbatim>\<open>error\<close> with the unassigned buffer, and with the file nothing is
  read.
\<close>

lemma load_actions_cases:
  "load_actions (fs, h) =
     (case fs (ObjectFile.path h @ ''/actions'') of
        None \<Rightarrow> Undefined
      | Some bytes \<Rightarrow> Return (0, fs, h\<lparr>actions := Indeterminate, action_count := 0\<rparr>))"
  by (simp add: load_actions_def file_exists_def stat_def fopen_def load_actions_error_def
      free_def then_run_def split: option.split)

lemma ObjectFile_open_cases:
  "ObjectFile_open (fs, h) =
     (case fs (ObjectFile.path h @ ''/actions'') of
        None \<Rightarrow> Undefined
      | Some bytes \<Rightarrow> Return (0, fs, h\<lparr>actions := Indeterminate, action_count := 0\<rparr>))"
  by (simp add: ObjectFile_open_def check_zero_def lock_def load_header_def
      load_properties_def load_actions_cases split: option.split)

lemma ObjectFile_close_returns: "ObjectFile_close w = Return (0, w)"
  by (simp add: ObjectFile_close_def check_zero_def unlock_def)

lemma parseopts_loop_object_type:
  "object_type (parseopts_loop calls options) =
     (case given CHR ''o'' calls of Some a \<Rightarrow> Ptr a | None \<Rightarrow> object_type options)"
  by (induction calls arbitrary: options) (auto split: option.splits)

lemma parseopts_loop_iterations:
  "iterations (parseopts_loop calls options) =
     (case given CHR ''i'' calls of Some a \<Rightarrow> atoi a | None \<Rightarrow> iterations options)"
  by (induction calls arbitrary: options) (auto split: option.splits)

lemma parseopts_loop_path:
  "Options.path (parseopts_loop calls options) = Options.path options"
  by (induction calls arbitrary: options) auto

lemma parseopts_loop_eq:
  "parseopts_loop calls options =
     \<lparr>Options.path = Options.path options,
      object_type =
        (case given CHR ''o'' calls of Some a \<Rightarrow> Ptr a | None \<Rightarrow> object_type options),
      iterations =
        (case given CHR ''i'' calls of Some a \<Rightarrow> atoi a | None \<Rightarrow> iterations options)\<rparr>"
  by (rule Options.equality)
    (simp_all add: parseopts_loop_object_type parseopts_loop_iterations parseopts_loop_path)

text \<open>
  The reading loop on its own. A record whose name is \<open>abc\<close>: the third read
  delivers two bytes into the pointer variable and returns 1, which is not the length 3,
  and the label \<^verbatim>\<open>error\<close> frees the overwritten pointer. A record with an empty name
  at the end of the stream is the one shape the loop accepts.
\<close>

lemma read_actions_named_record:
  "read_actions 0 1 \<lparr>unread = [7, 0, 0, 0, 3, 0, 97, 98, 99], eof = False\<rparr> None [unwritten] =
     Undefined"
  by (simp add: read_actions.simps fread_def store_def load_actions_error_def free_def
      then_run_def)

lemma read_actions_empty_name:
  "read_actions 0 1 \<lparr>unread = [7, 0, 0, 0, 0, 0], eof = False\<rparr> None [unwritten] =
     Return (Some [\<lparr>id' = Some 7, Action.name = Ptr []\<rparr>])"
  by (simp add: read_actions.simps fread_def store_def bfromcstr_def then_run_def)

text \<open>
  Whatever array the loop returns, each element is the one it started with or carries
  the empty name: no name of one byte or more is ever loaded.
\<close>

lemma read_actions_names_empty:
  "read_actions i count f l acts = Return (Some acts') \<Longrightarrow>
   acts' ! k = acts ! k \<or> Action.name (acts' ! k) = Ptr []"
proof (induction i count f l acts rule: read_actions.induct)
  case (1 i count stream length' actions')
  show ?case
  proof (cases "i < count \<and> \<not> eof stream")
    case False
    with "1.prems" show ?thesis
      by (simp add: read_actions.simps)
  next
    case True
    obtain id_bytes n1 stream1 where r1: "fread 4 1 stream = (id_bytes, n1, stream1)"
      by (cases "fread 4 1 stream") auto
    obtain length_bytes n2 stream2 where r2: "fread 2 1 stream1 = (length_bytes, n2, stream2)"
      by (cases "fread 2 1 stream1") auto
    obtain name_bytes n3 stream3 where r3: "fread 2 1 stream2 = (name_bytes, n3, stream3)"
      by (cases "fread 2 1 stream2") auto
    from "1.prems" True r1 r2 obtain len where len: "store 2 length_bytes length' = Some len"
      by (cases "store 2 length_bytes length'") (simp_all add: read_actions.simps)
    from "1.prems" True r1 r2 r3 len have ok: "n3 = unat len" "name_bytes = []"
      by (auto simp: read_actions.simps [of i] Let_def then_run_def load_actions_error_def
          bfromcstr_def free_def split: if_splits)
    let ?new = "\<lparr>id' = store 4 id_bytes None, Action.name = Ptr []\<rparr>"
    from "1.prems" True r1 r2 r3 len ok
    have rec: "read_actions (i + 1) count stream3 (Some len)
                 (list_update actions' (unat i) ?new) = Return (Some acts')"
      by (simp add: read_actions.simps [of i] bfromcstr_def then_run_def)
    have "acts' ! k = (list_update actions' (unat i) ?new) ! k \<or>
          Action.name (acts' ! k) = Ptr []"
      using "1.IH" [OF True r1 [symmetric] refl r2 [symmetric] refl len r3 [symmetric]
          refl refl] r3 ok rec
      by (simp add: bfromcstr_def)
    then show ?thesis
      by (cases "unat i < length actions'") (auto simp: nth_list_update list_update_beyond)
  qed
qed

lemma two_names:
  "snd (find_or_create ''signup''
          (snd (find_or_create ''login'' \<lparr>entries = [], dirty = False\<rparr>))) =
   \<lparr>entries = [(0, ''login''), (1, ''signup'')], dirty = True\<rparr>"
  by (simp add: find_or_create_def)

lemma persist_two_names:
  "persist \<lparr>entries = [(0, ''login''), (1, ''signup'')], dirty = True\<rparr> =
     [2, 0, 0, 0,
      0, 0, 0, 0, 5, 0, 108, 111, 103, 105, 110,
      1, 0, 0, 0, 6, 0, 115, 105, 103, 110, 117, 112]"
  by (simp add: persist_def le_bytes_def upt_rec [of _ "numeral _"] upt_rec [of _ "Suc _"])

section \<open>The claims\<close>

text \<open>
  Claim C8. The benchmark's command line needs a database path, the first argument that
  is not an option, and an object type given with \<^verbatim>\<open>-o\<close>: without the path the
  process exits with status 1 and the message that the database path is required,
  and with a path but no \<^verbatim>\<open>-o\<close> it exits with status 1 and the message that the
  object type is required. Otherwise the options are returned with that path and the
  last object type given, and the iteration count is 1 when \<^verbatim>\<open>-i\<close> is omitted or its
  value is not positive, and the value given otherwise.
\<close>

theorem parseopts_requirements:
  "parseopts calls args =
     (case args of
        [] \<Rightarrow> Exit 1 (''Error: Database path required.'' @ [CHR 0x0A, CHR 0x0A])
      | a # rest \<Rightarrow>
         (case given CHR ''o'' calls of
            None \<Rightarrow> Exit 1 (''Error: Object type (-o) is required.'' @ [CHR 0x0A, CHR 0x0A])
          | Some t \<Rightarrow>
             Returned \<lparr>Options.path = Ptr a, object_type = Ptr t,
               iterations = (case given CHR ''i'' calls of
                               None \<Rightarrow> 1
                             | Some n \<Rightarrow> if sint (atoi n) \<le> 0 then 1 else atoi n)\<rparr>))"
  by (simp add: parseopts_def parseopts_loop_eq split: list.split option.split)

theorem parseopts_requirements_witness:
  "parseopts [(CHR ''o'', ''users''), (CHR ''i'', ''5'')] [] =
     Exit 1 (''Error: Database path required.'' @ [CHR 0x0A, CHR 0x0A]) \<and>
   parseopts [(CHR ''i'', ''5'')] [''/db''] =
     Exit 1 (''Error: Object type (-o) is required.'' @ [CHR 0x0A, CHR 0x0A]) \<and>
   parseopts [(CHR ''o'', ''users'')] [''/db''] =
     Returned \<lparr>Options.path = Ptr ''/db'', object_type = Ptr ''users'', iterations = 1\<rparr> \<and>
   parseopts [(CHR ''o'', ''users''), (CHR ''i'', ''-3'')] [''/db''] =
     Returned \<lparr>Options.path = Ptr ''/db'', object_type = Ptr ''users'', iterations = 1\<rparr> \<and>
   parseopts [(CHR ''i'', ''5''), (CHR ''o'', ''users'')] [''/db'', ''extra''] =
     Returned \<lparr>Options.path = Ptr ''/db'', object_type = Ptr ''users'', iterations = 5\<rparr>"
  using parseopts_requirements [of "[(CHR ''o'', ''users''), (CHR ''i'', ''5'')]" "[]"]
    parseopts_requirements [of "[(CHR ''i'', ''5'')]" "[''/db'']"]
    parseopts_requirements [of "[(CHR ''o'', ''users'')]" "[''/db'']"]
    parseopts_requirements [of "[(CHR ''o'', ''users''), (CHR ''i'', ''-3'')]" "[''/db'']"]
    parseopts_requirements [of "[(CHR ''i'', ''5''), (CHR ''o'', ''users'')]" "[''/db'', ''extra'']"]
  by (simp add: atoi_def strtol_def isspace_def isdigit_def)

text \<open>
  Claim C1. A dictionary file whose stored name length exceeds the bytes left before
  the end of the file must make \<^verbatim>\<open>load_actions\<close> fail. The code at such a file: the
  count is 1, the record has id 0 and name length 5, and two bytes of name follow.
  \<^verbatim>\<open>file_exists\<close> returns 0 for the file that exists, the reading branch is skipped,
  and the call returns 0 with an action count of 0.
\<close>

theorem load_actions_accepts_truncated_name:
  "load_actions
     ([''/db/users/actions'' \<mapsto> [1, 0, 0, 0, 0, 0, 0, 0, 5, 0, 97, 98]], users_file) =
   Return (0, [''/db/users/actions'' \<mapsto> [1, 0, 0, 0, 0, 0, 0, 0, 5, 0, 97, 98]],
           users_file\<lparr>actions := Indeterminate, action_count := 0\<rparr>)"
  by (simp add: load_actions_cases users_file_def)

text \<open>
  Claim C2. Without an actions file \<^verbatim>\<open>load_actions\<close> must return 0 and leave an
  empty dictionary, and with the file it must read the records. The code without the
  file: \<^verbatim>\<open>file_exists\<close> returns -1, the reading branch is taken, \<^verbatim>\<open>fopen\<close> fails and
  the label \<^verbatim>\<open>error\<close> handles a buffer that was never assigned. The code with a file
  of one record named \<open>abc\<close>: the call returns 0 and the record is not read.
\<close>

theorem load_actions_without_file:
  "load_actions (Map.empty, users_file) = Undefined \<and>
   load_actions
     ([''/db/users/actions'' \<mapsto> [1, 0, 0, 0, 7, 0, 0, 0, 3, 0, 97, 98, 99]], users_file) =
   Return (0, [''/db/users/actions'' \<mapsto> [1, 0, 0, 0, 7, 0, 0, 0, 3, 0, 97, 98, 99]],
           users_file\<lparr>actions := Indeterminate, action_count := 0\<rparr>)"
  by (simp add: load_actions_cases users_file_def)

text \<open>
  Claim C3. Events inserted with the timestamps 5, 1 and 3 for one object must end up
  in a path ordered 1, 3, 5. The code at these three insertions into the fresh handle:
  each call returns 0, and the handle and the file system are what they were, with no
  block and no header info.
\<close>

theorem add_event_drops_events:
  "add_events (Map.empty, users_file) [event_at 5, event_at 1, event_at 3] =
     Return ([0, 0, 0], (Map.empty, users_file))"
  by (simp add: ObjectFile_add_event_def then_run_def)

text \<open>
  Claim C4. Acquiring the lock must fail while another live process holds it, and
  releasing a lock that is not held must be an error. The code in every state of the
  object file's directory, with or without a lock file: \<^verbatim>\<open>lock\<close> and \<^verbatim>\<open>unlock\<close>
  return 0 and change nothing.
\<close>

theorem lock_unlock_ignore_lock_file:
  "lock w = Return (0, w) \<and> unlock w = Return (0, w)"
  by (simp add: lock_def unlock_def)

text \<open>
  Claim C5. After N insertions that force a block split a full scan must visit N
  events. The code for every list of events: all calls return 0 and neither the handle
  nor the file system changes, so no block is created, split or written.
\<close>

theorem add_events_changes_nothing:
  "add_events w events = Return (replicate (length events) 0, w)"
  by (induction events) (simp_all add: ObjectFile_add_event_def then_run_def)

text \<open>
  Claim C6. Persisting a dictionary and loading it must reproduce the mapping from ids
  to names. The code at the dictionary of the names \<open>login\<close> and \<open>signup\<close>, which
  get the ids 0 and 1: loading the persisted file returns 0 with an action count of 0
  and no action.
\<close>

theorem persisted_dictionary_not_loaded:
  "load_actions
     ([''/db/users/actions'' \<mapsto>
         persist (snd (find_or_create ''signup''
           (snd (find_or_create ''login'' \<lparr>entries = [], dirty = False\<rparr>))))],
      users_file) =
   Return (0,
     [''/db/users/actions'' \<mapsto>
         [2, 0, 0, 0,
          0, 0, 0, 0, 5, 0, 108, 111, 103, 105, 110,
          1, 0, 0, 0, 6, 0, 115, 105, 103, 110, 117, 112]],
     users_file\<lparr>actions := Indeterminate, action_count := 0\<rparr>)"
  by (simp add: load_actions_cases users_file_def two_names persist_two_names)

text \<open>
  Claim C7. \<^verbatim>\<open>ObjectFile_open\<close> must acquire the write lock before it loads the header
  and the dictionaries and return a failure when a step fails, and \<^verbatim>\<open>ObjectFile_close\<close>
  must release the lock. The code at a directory that holds the actions file and a lock
  file with the identifier 4242 of another process: \<^verbatim>\<open>ObjectFile_open\<close> returns 0
  and the file system is what it was, so no lock was taken and the lock of the other
  process did not make the call fail; \<^verbatim>\<open>ObjectFile_close\<close> returns 0 and the lock
  file is still there.
\<close>

theorem ObjectFile_open_ignores_foreign_lock:
  "ObjectFile_open
     ([''/db/users/actions'' \<mapsto> [0, 0, 0, 0], ''/db/users/lock'' \<mapsto> [52, 50, 52, 50]],
      users_file) =
   Return (0,
     [''/db/users/actions'' \<mapsto> [0, 0, 0, 0], ''/db/users/lock'' \<mapsto> [52, 50, 52, 50]],
     users_file\<lparr>actions := Indeterminate, action_count := 0\<rparr>) \<and>
   ObjectFile_close
     ([''/db/users/actions'' \<mapsto> [0, 0, 0, 0], ''/db/users/lock'' \<mapsto> [52, 50, 52, 50]],
      users_file\<lparr>actions := Indeterminate, action_count := 0\<rparr>) =
   Return (0,
     [''/db/users/actions'' \<mapsto> [0, 0, 0, 0], ''/db/users/lock'' \<mapsto> [52, 50, 52, 50]],
     users_file\<lparr>actions := Indeterminate, action_count := 0\<rparr>)"
  by (simp add: ObjectFile_open_cases ObjectFile_close_returns users_file_def)

text \<open>
  Claim C9. \<^verbatim>\<open>ObjectFile_create\<close> must return \<open>NULL\<close> for a \<open>NULL\<close> database or
  a \<open>NULL\<close> name. The code at either input: the check fails before the local handle
  has been assigned, and the label \<^verbatim>\<open>error\<close> passes that local to
  \<^verbatim>\<open>ObjectFile_destroy\<close>, which tests it and frees what it points to.
\<close>

theorem ObjectFile_create_null_argument:
  "ObjectFile_create NULL (Ptr ''users'') = Undefined \<and>
   ObjectFile_create (Ptr \<lparr>Database.path = ''/db''\<rparr>) NULL = Undefined"
  by (simp add: ObjectFile_create_def ObjectFile_create_error_def ObjectFile_destroy_def
      then_run_def)

text \<open>
  Claim C10. A close that succeeds leaves the name, the path, the header infos, the
  block count, the actions, the action count, the properties and the property count
  of the handle as they were; the file system is as it was too.
\<close>

theorem ObjectFile_close_frame:
  assumes "ObjectFile_close (fs, h) = Return (0, fs', h')"
  shows "ObjectFile.name h' = ObjectFile.name h \<and> ObjectFile.path h' = ObjectFile.path h \<and>
         infos h' = infos h \<and> block_count h' = block_count h \<and>
         actions h' = actions h \<and> action_count h' = action_count h \<and>
         properties h' = properties h \<and> property_count h' = property_count h \<and>
         fs' = fs"
  using assms by (simp add: ObjectFile_close_returns)

theorem ObjectFile_close_frame_witness:
  "ObjectFile_close (Map.empty, users_file) = Return (0, Map.empty, users_file) \<and>
   ObjectFile.name users_file = ''users'' \<and> ObjectFile.path users_file = ''/db/users'' \<and>
   infos users_file = NULL \<and> block_count users_file = 0 \<and>
   actions users_file = NULL \<and> action_count users_file = 0 \<and>
   properties users_file = NULL \<and> property_count users_file = 0"
proof -
  have closes: "ObjectFile_close (Map.empty, users_file) = Return (0, Map.empty, users_file)"
    by (simp add: ObjectFile_close_returns)
  show ?thesis
    using ObjectFile_close_frame [OF closes] closes by (simp add: users_file_def)
qed

end
